theory Spec2Isabelle
  imports Complex_Main
begin

section \<open>The pet simulation engine of \<open>backend.py\<close>\<close>

text \<open>
  Modelling conventions.
  \<^item> Python \<open>float\<close> values are modelled as \<^typ>\<open>real\<close>, Python \<open>int\<close> values as
    \<^typ>\<open>int\<close>; an \<open>int\<close> that meets a \<open>float\<close> in arithmetic is injected with
    \<open>of_int\<close>. Rounding of IEEE doubles is therefore idealised away.
  \<^item> A method that mutates \<open>self\<close> takes the pet and returns the new pet next to its
    Python return value.
  \<^item> Every read of the wall clock (\<open>time.time()\<close>, \<open>time.localtime()\<close>) and of the
    random source (\<open>random.random()\<close>, \<open>random.randint\<close>) is an explicit argument.
  \<^item> The text of a returned message is abstracted to one constructor per message
    template of the source.
\<close>

subsection \<open>Configuration constants\<close>

named_theorems config \<open>the configuration constants of backend.py\<close>

definition HUNGER_INCREASE_PER_HOUR :: real where
  [config]: "HUNGER_INCREASE_PER_HOUR = 2"

definition ENERGY_RECOVER_PER_HOUR :: real where
  [config]: "ENERGY_RECOVER_PER_HOUR = 1"

definition HAPPINESS_DECAY_PER_HOUR :: real where
  [config]: "HAPPINESS_DECAY_PER_HOUR = 1 / 2"

definition FEED_COST :: int where
  [config]: "FEED_COST = 5"

definition DAILY_REWARD_COINS :: int where
  [config]: "DAILY_REWARD_COINS = 20"

definition JOB_COIN_RATE_PER_MIN :: real where
  [config]: "JOB_COIN_RATE_PER_MIN = 1 / 5"

definition PLAY_COIN_REWARD :: int where
  [config]: "PLAY_COIN_REWARD = 1"

definition REST_COIN_REWARD :: int where
  [config]: "REST_COIN_REWARD = 1"

definition RANDOM_GIFT_CHANCE :: real where
  [config]: "RANDOM_GIFT_CHANCE = 5 / 100"

text \<open>
  A shop item is a Python dict from attribute names to integers; the items do not all
  carry the same keys, so an item is an association list. \<open>d[k]\<close> raises
  \<open>KeyError\<close> on a missing key, \<open>d.get(k, default)\<close> does not.
\<close>

datatype py_error = KeyError | TypeError | ValueError | OverflowError

type_synonym item = "(string \<times> int) list"

definition SHOP_ITEMS :: "(string \<times> item) list" where
  "SHOP_ITEMS =
    [(''food'', [(''price'', 5), (''hunger_restore'', 25), (''happiness'', 5)]),
     (''toy'', [(''price'', 10), (''hunger_restore'', 0), (''happiness'', 20), (''energy_cost'', 5)]),
     (''energy_drink'', [(''price'', 8), (''energy_restore'', 30), (''happiness'', 2)])]"

definition subscript :: "(string \<times> 'v) list \<Rightarrow> string \<Rightarrow> py_error + 'v" where
  "subscript d k = (case map_of d k of None \<Rightarrow> Inl KeyError | Some v \<Rightarrow> Inr v)"

definition dict_get :: "(string \<times> 'v) list \<Rightarrow> string \<Rightarrow> 'v \<Rightarrow> 'v" where
  "dict_get d k dflt = (case map_of d k of None \<Rightarrow> dflt | Some v \<Rightarrow> v)"

text \<open>
  A Python \<open>int\<close> is unbounded, a \<open>float\<close> is not: where an \<open>int\<close> meets a
  \<open>float\<close> in arithmetic, or is passed to \<open>float()\<close>, it is first converted, and
  the conversion raises \<open>OverflowError\<close> unless the integer rounds to a finite
  double. The largest finite double is \<open>2^1024 - 2^971\<close> and half a unit in its last
  place is \<open>2^970\<close>, so exactly the integers of magnitude below \<open>FLOAT_LIMIT\<close>
  convert.
\<close>

definition FLOAT_LIMIT :: int where
  "FLOAT_LIMIT = 2 ^ 1024 - 2 ^ 970"

definition float_range :: "int \<Rightarrow> bool" where
  "float_range n \<longleftrightarrow> - FLOAT_LIMIT < n \<and> n < FLOAT_LIMIT"

subsection \<open>The Pet dataclass\<close>

text \<open>
  The fields of the dataclass, in declaration order. \<open>name\<close> and \<open>species\<close> are
  \<open>None\<close> only in a pet that \<open>from_dict\<close> built from an entry without the key.
  The type of \<open>last_updated\<close> is a parameter: it is a number in every pet the engine
  acts on (\<open>pet\<close> below), and an arbitrary JSON value in the intermediate object that
  \<open>from_dict\<close> returns before \<open>PetWorld.load\<close> converts it.
\<close>

record 'ts Pet =
  name :: "string option"
  species :: "string option"
  hunger :: real
  happiness :: real
  energy :: real
  max_energy :: real
  level :: int
  xp :: int
  coins :: int
  last_updated :: 'ts
  evolve_at :: int
  evolution :: "string option"
  evolved :: bool
  last_daily_claim :: real
  last_gift_time :: real
  last_gift_amount :: int

type_synonym pet = "real Pet"

datatype message =
    Fed | NotEnoughCoinsFood
  | Played | TooTiredPlay
  | Rested
  | DailyClaimed | DailyAlreadyClaimed
  | InvalidJobDuration | TooTiredWork | Worked
  | InvalidItem | NotEnoughCoins | UsedFood | TooTiredToy | PlayedToy | DrankEnergy
  | UnknownItemEffect

subsection \<open>Time decay, random gift, refresh\<close>

definition apply_time_decay :: "real \<Rightarrow> pet \<Rightarrow> pet" where
  "apply_time_decay seconds p =
    (let hours = seconds / 3600 in
     if hours \<le> 0 then p
     else
       let p1 = p\<lparr>hunger := min 100 (hunger p + HUNGER_INCREASE_PER_HOUR * hours)\<rparr>;
           p2 = p1\<lparr>energy := max 0 (min (max_energy p1)
                                  (energy p1 + ENERGY_RECOVER_PER_HOUR * hours))\<rparr>
       in if hunger p2 > 70 \<or> energy p2 < 20
          then p2\<lparr>happiness := max 0 (happiness p2 - HAPPINESS_DECAY_PER_HOUR * hours)\<rparr>
          else p2)"

text \<open>
  What one call of \<open>refresh\<close> reads from outside the pet: the clock at its start, the
  value of \<open>random.random()\<close>, the value \<open>random.randint\<close> would return, and the
  clock read inside \<open>_maybe_random_gift\<close>.
\<close>

record env =
  now :: real
  roll :: real
  amt :: int
  gift_now :: real

definition maybe_random_gift :: "env \<Rightarrow> pet \<Rightarrow> int option \<times> pet" where
  "maybe_random_gift e p =
    (if roll e < RANDOM_GIFT_CHANCE
     then (Some (amt e),
           p\<lparr>coins := coins p + amt e, last_gift_time := gift_now e,
              last_gift_amount := amt e\<rparr>)
     else (None, p))"

definition refresh :: "env \<Rightarrow> pet \<Rightarrow> pet" where
  "refresh e p =
    (let elapsed = now e - last_updated p in
     if elapsed > 0
     then (snd (maybe_random_gift e (apply_time_decay elapsed p)))\<lparr>last_updated := now e\<rparr>
     else p)"

subsection \<open>Leveling and evolution\<close>

text \<open>The \<open>while self.xp >= 100\<close> loop of \<open>_gain_xp\<close>, with its flag.\<close>

function level_loop :: "pet \<Rightarrow> bool \<Rightarrow> pet \<times> bool" where
  "level_loop p leveled_up =
    (if 100 \<le> xp p
     then level_loop (p\<lparr>xp := xp p - 100, level := level p + 1, coins := coins p + 20\<rparr>) True
     else (p, leveled_up))"
  by pat_completeness auto
termination
  by (relation "measure (\<lambda>(p, b). nat (xp p))") auto

declare level_loop.simps [simp del]

text \<open>How often the loop body runs when it is entered with \<open>xp = x\<close>.\<close>

definition levels_gained :: "int \<Rightarrow> int" where
  "levels_gained x = (if 100 \<le> x then x div 100 else 0)"

definition gain_xp :: "int \<Rightarrow> pet \<Rightarrow> bool \<times> pet" where
  "gain_xp amount p =
    (let (p1, leveled_up) = level_loop (p\<lparr>xp := xp p + amount\<rparr>) False in
     if leveled_up \<and> \<not> evolved p1 \<and> evolve_at p1 \<le> level p1
     then (True, p1\<lparr>evolved := True\<rparr>)
     else (False, p1))"

subsection \<open>Actions\<close>

text \<open>\<open>int(x)\<close> on a float truncates towards zero.\<close>

definition py_int :: "real \<Rightarrow> int" where
  "py_int x = (if 0 \<le> x then \<lfloor>x\<rfloor> else \<lceil>x\<rceil>)"

definition feed :: "env \<Rightarrow> bool \<Rightarrow> real \<Rightarrow> pet \<Rightarrow> bool \<times> message \<times> pet" where
  "feed e use_item food_strength p0 =
    (let p = refresh e p0 in
     if \<not> use_item \<and> coins p < FEED_COST then (False, NotEnoughCoinsFood, p)
     else
       let p1 = (if \<not> use_item then p\<lparr>coins := coins p - FEED_COST\<rparr> else p);
           p2 = p1\<lparr>hunger := max 0 (hunger p1 - food_strength)\<rparr>;
           p3 = p2\<lparr>happiness := min 100 (happiness p2 + food_strength * (2 / 10))\<rparr>
       in (True, Fed, snd (gain_xp 10 p3)))"

text \<open>
  \<open>play\<close>, \<open>rest\<close> and \<open>do_job\<close> multiply \<open>minutes\<close> by a float. The three
  definitions give the result of a call whose \<open>minutes\<close> converts to a float
  (\<open>float_range minutes\<close>). For a larger \<open>minutes\<close> the source raises
  \<open>OverflowError\<close> at that multiplication, after \<open>refresh\<close> has run (in \<open>do_job\<close>
  after the check \<open>minutes <= 0\<close>); that exception is not represented, and the
  properties below that depend on it assume \<open>float_range minutes\<close>.
\<close>

definition play :: "env \<Rightarrow> int \<Rightarrow> pet \<Rightarrow> bool \<times> message \<times> pet" where
  "play e minutes p0 =
    (let p = refresh e p0;
         energy_cost = of_int minutes * (5 / 10) in
     if energy p < energy_cost then (False, TooTiredPlay, p)
     else
       let p1 = p\<lparr>energy := max 0 (energy p - energy_cost)\<rparr>;
           p2 = p1\<lparr>happiness := min 100 (happiness p1 + of_int minutes * (6 / 10))\<rparr>;
           p3 = p2\<lparr>coins := coins p2 + PLAY_COIN_REWARD\<rparr>
       in (True, Played, snd (gain_xp (15 + py_int (of_int minutes / 5)) p3)))"

definition rest :: "env \<Rightarrow> int \<Rightarrow> pet \<Rightarrow> bool \<times> message \<times> pet" where
  "rest e minutes p0 =
    (let p = refresh e p0;
         energy_gain = of_int minutes * (8 / 10);
         p1 = p\<lparr>energy := min (max_energy p) (energy p + energy_gain)\<rparr>;
         p2 = p1\<lparr>happiness := min 100 (happiness p1 + of_int minutes * (3 / 100))\<rparr>
     in (True, Rested, p2\<lparr>coins := coins p2 + REST_COIN_REWARD\<rparr>))"

text \<open>
  \<open>daily_reward\<close> formats two timestamps as local calendar dates and compares the
  strings. \<open>day_of\<close> stands for \<open>time.strftime("%Y-%m-%d", time.localtime(t))\<close>;
  \<open>t_today\<close> is the clock read by \<open>time.localtime()\<close>, \<open>t_claim\<close> the later read by
  \<open>time.time()\<close>. A \<open>last_daily_claim\<close> of \<open>0.0\<close> is falsy and means "never claimed".
  \<open>day_of\<close> is total: a timestamp that \<open>time.localtime\<close> rejects is outside the
  model.
\<close>

definition daily_reward ::
  "(real \<Rightarrow> string) \<Rightarrow> real \<Rightarrow> real \<Rightarrow> pet \<Rightarrow> bool \<times> message \<times> pet" where
  "daily_reward day_of t_today t_claim p =
    (let today = day_of t_today;
         last_claim_day = (if last_daily_claim p \<noteq> 0
                           then Some (day_of (last_daily_claim p)) else None)
     in if last_claim_day \<noteq> Some today
        then (True, DailyClaimed,
              p\<lparr>coins := coins p + DAILY_REWARD_COINS, last_daily_claim := t_claim\<rparr>)
        else (False, DailyAlreadyClaimed, p))"

definition do_job :: "env \<Rightarrow> int \<Rightarrow> pet \<Rightarrow> bool \<times> message \<times> pet" where
  "do_job e minutes p0 =
    (let p = refresh e p0 in
     if minutes \<le> 0 then (False, InvalidJobDuration, p)
     else
       let energy_cost = of_int minutes * (3 / 10) in
       if energy p < energy_cost then (False, TooTiredWork, p)
       else
         let earned = py_int (of_int minutes * JOB_COIN_RATE_PER_MIN);
             p1 = p\<lparr>energy := max 0 (energy p - energy_cost)\<rparr>;
             p2 = p1\<lparr>coins := coins p1 + earned\<rparr>;
             xp_gain = max 1 (minutes div 10)
         in (True, Worked, snd (gain_xp xp_gain p2)))"

text \<open>
  \<open>buy_item\<close> does not call \<open>refresh\<close>. \<open>Inl KeyError\<close> is the exception a
  subscript \<open>item[k]\<close> raises on a missing key.
\<close>

definition buy_item :: "string \<Rightarrow> pet \<Rightarrow> py_error + (bool \<times> message \<times> pet)" where
  "buy_item item_key p =
    (case map_of SHOP_ITEMS item_key of
       None \<Rightarrow> Inr (False, InvalidItem, p)
     | Some item \<Rightarrow>
       if item = [] then Inr (False, InvalidItem, p)
       else
       (case subscript item ''price'' of
          Inl err \<Rightarrow> Inl err
        | Inr price \<Rightarrow>
          if coins p < price then Inr (False, NotEnoughCoins, p)
          else
            let p1 = p\<lparr>coins := coins p - price\<rparr> in
            if item_key = ''food'' then
              (case subscript item ''hunger_restore'' of
                 Inl err \<Rightarrow> Inl err
               | Inr hunger_restore \<Rightarrow>
                 let p2 = p1\<lparr>hunger := max 0 (hunger p1 - of_int hunger_restore)\<rparr>;
                     p3 = p2\<lparr>happiness :=
                            min 100 (happiness p2 + of_int (dict_get item ''happiness'' 0))\<rparr>
                 in Inr (True, UsedFood, snd (gain_xp 5 p3)))
            else if item_key = ''toy'' then
              (let energy_cost = dict_get item ''energy_cost'' 0 in
               if energy p1 < of_int energy_cost
               then Inr (False, TooTiredToy, p1\<lparr>coins := coins p1 + price\<rparr>)
               else
                 (case subscript item ''happiness'' of
                    Inl err \<Rightarrow> Inl err
                  | Inr happy \<Rightarrow>
                    let p2 = p1\<lparr>energy := max 0 (energy p1 - of_int energy_cost)\<rparr>;
                        p3 = p2\<lparr>happiness := min 100 (happiness p2 + of_int happy)\<rparr>
                    in Inr (True, PlayedToy, snd (gain_xp 10 p3))))
            else if item_key = ''energy_drink'' then
              (case subscript item ''energy_restore'' of
                 Inl err \<Rightarrow> Inl err
               | Inr energy_restore \<Rightarrow>
                 let p2 = p1\<lparr>energy := min (max_energy p1)
                                         (energy p1 + of_int energy_restore)\<rparr>;
                     p3 = p2\<lparr>happiness :=
                            min 100 (happiness p2 + of_int (dict_get item ''happiness'' 0))\<rparr>
                 in Inr (True, DrankEnergy, snd (gain_xp 7 p3)))
            else Inr (False, UnknownItemEffect, p1)))"

subsection \<open>Species templates and pet creation\<close>

text \<open>
  Strings are modelled as ASCII strings. \<open>str.lower()\<close> maps each of \<open>A\<close>..\<open>Z\<close>
  to its lower-case letter and keeps every other character; \<open>str.strip()\<close> removes leading and trailing whitespace, which in
  ASCII are the codes 9 to 13 and 28 to 32.
\<close>

definition lower_char :: "char \<Rightarrow> char" where
  "lower_char c =
    (case map_of (zip ''ABCDEFGHIJKLMNOPQRSTUVWXYZ'' ''abcdefghijklmnopqrstuvwxyz'') c of
       None \<Rightarrow> c
     | Some l \<Rightarrow> l)"

definition py_lower :: "string \<Rightarrow> string" where
  "py_lower s = map lower_char s"

definition is_space :: "char \<Rightarrow> bool" where
  "is_space c = (let n = (of_char c :: nat) in (9 \<le> n \<and> n \<le> 13) \<or> (28 \<le> n \<and> n \<le> 32))"

definition py_strip :: "string \<Rightarrow> string" where
  "py_strip s = rev (dropWhile is_space (rev (dropWhile is_space s)))"

record template =
  t_max_energy :: int
  base_hunger :: int
  base_happiness :: int
  t_evolve_at :: int
  t_evolution :: string

definition cat_template :: template where
  "cat_template = \<lparr>t_max_energy = 100, base_hunger = 30, base_happiness = 60,
                    t_evolve_at = 5, t_evolution = ''Big Cat''\<rparr>"

definition TEMPLATES :: "(string \<times> template) list" where
  "TEMPLATES =
    [(''cat'', cat_template),
     (''dog'', \<lparr>t_max_energy = 120, base_hunger = 35, base_happiness = 55,
                t_evolve_at = 6, t_evolution = ''Wolfhound''\<rparr>),
     (''dragon'', \<lparr>t_max_energy = 200, base_hunger = 20, base_happiness = 65,
                   t_evolve_at = 4, t_evolution = ''Elder Dragon''\<rparr>)]"

text \<open>
  \<open>PetFactory.create_pet\<close>. The fields it does not pass take the dataclass defaults;
  \<open>t_now\<close> is the clock read by the default factory of \<open>last_updated\<close>.
\<close>

definition factory_create_pet :: "real \<Rightarrow> string \<Rightarrow> string \<Rightarrow> pet" where
  "factory_create_pet t_now nm sp =
    (let spec = py_lower sp;
         tmpl = dict_get TEMPLATES spec cat_template
     in \<lparr>name = Some nm, species = Some spec,
         hunger = of_int (base_hunger tmpl), happiness = of_int (base_happiness tmpl),
         energy = of_int (t_max_energy tmpl), max_energy = of_int (t_max_energy tmpl),
         level = 1, xp = 0, coins = 50, last_updated = t_now,
         evolve_at = t_evolve_at tmpl, evolution = Some (t_evolution tmpl),
         evolved = False, last_daily_claim = 0, last_gift_time = 0,
         last_gift_amount = 0\<rparr>)"

subsection \<open>The registry\<close>

record world =
  pets :: "string \<rightharpoonup> pet"

datatype world_message = NameEmpty | NameExists | Created | NoSaveFile | Loaded

definition create_pet :: "real \<Rightarrow> string \<Rightarrow> string \<Rightarrow> world \<Rightarrow> bool \<times> world_message \<times> world" where
  "create_pet t_now nm0 sp w =
    (let nm = py_strip nm0 in
     if nm = [] then (False, NameEmpty, w)
     else if nm \<in> dom (pets w) then (False, NameExists, w)
     else (True, Created, w\<lparr>pets := (pets w)(nm \<mapsto> factory_create_pet t_now nm sp)\<rparr>))"

definition get_pet :: "string \<Rightarrow> world \<Rightarrow> pet option" where
  "get_pet nm w = pets w nm"

definition delete_pet :: "string \<Rightarrow> world \<Rightarrow> bool \<times> world" where
  "delete_pet nm w =
    (if nm \<in> dom (pets w) then (True, w\<lparr>pets := (pets w)(nm := None)\<rparr>) else (False, w))"

subsection \<open>Serialisation\<close>

text \<open>
  A JSON value, as far as \<open>float()\<close> tells values apart; arrays and objects carry no
  content here.
\<close>

datatype jval = JNull | JBool bool | JInt int | JFloat real | JStr string | JArr | JObj

text \<open>
  One entry of the saved document: the value stored under each key, \<open>None\<close> when the
  key is missing. Every value has the type of its dataclass field, except that of
  \<open>last_updated\<close>, the one field whose ill-typed values the source handles itself. For
  the three fields that \<open>from_dict\<close> reads without a default, a missing key and a
  stored \<open>null\<close> both read as \<open>None\<close>.
\<close>

record pdata =
  d_name :: "string option"
  d_species :: "string option"
  d_hunger :: "real option"
  d_happiness :: "real option"
  d_energy :: "real option"
  d_max_energy :: "real option"
  d_level :: "int option"
  d_xp :: "int option"
  d_coins :: "int option"
  d_last_updated :: "jval option"
  d_evolve_at :: "int option"
  d_evolution :: "string option"
  d_evolved :: "bool option"
  d_last_daily_claim :: "real option"
  d_last_gift_time :: "real option"
  d_last_gift_amount :: "int option"

text \<open>\<open>data.get(key, default)\<close> on one key of an entry.\<close>

definition get_or :: "'a option \<Rightarrow> 'a \<Rightarrow> 'a" where
  "get_or v dflt = (case v of None \<Rightarrow> dflt | Some x \<Rightarrow> x)"

definition to_dict :: "pet \<Rightarrow> pdata" where
  "to_dict p =
    \<lparr>d_name = name p, d_species = species p, d_hunger = Some (hunger p),
     d_happiness = Some (happiness p), d_energy = Some (energy p),
     d_max_energy = Some (max_energy p), d_level = Some (level p), d_xp = Some (xp p),
     d_coins = Some (coins p), d_last_updated = Some (JFloat (last_updated p)),
     d_evolve_at = Some (evolve_at p), d_evolution = evolution p,
     d_evolved = Some (evolved p), d_last_daily_claim = Some (last_daily_claim p),
     d_last_gift_time = Some (last_gift_time p),
     d_last_gift_amount = Some (last_gift_amount p)\<rparr>"

definition from_dict :: "real \<Rightarrow> pdata \<Rightarrow> jval Pet" where
  "from_dict t_now d =
    \<lparr>name = d_name d, species = d_species d,
     hunger = get_or (d_hunger d) 50,
     happiness = get_or (d_happiness d) 50,
     energy = get_or (d_energy d) (get_or (d_max_energy d) 100),
     max_energy = get_or (d_max_energy d) 100,
     level = get_or (d_level d) 1,
     xp = get_or (d_xp d) 0,
     coins = get_or (d_coins d) 50,
     last_updated = get_or (d_last_updated d) (JFloat t_now),
     evolve_at = get_or (d_evolve_at d) 999,
     evolution = d_evolution d,
     evolved = get_or (d_evolved d) False,
     last_daily_claim = get_or (d_last_daily_claim d) 0,
     last_gift_time = get_or (d_last_gift_time d) 0,
     last_gift_amount = get_or (d_last_gift_amount d) 0\<rparr>"

text \<open>
  \<open>float(v)\<close>: a number converts (an integer beyond the float range raises
  \<open>OverflowError\<close>), \<open>None\<close> and containers raise \<open>TypeError\<close>, a string
  converts when it parses as a float literal and raises \<open>ValueError\<close> otherwise.
  The parser of float literals is the argument \<open>parse\<close>.
\<close>

fun py_float :: "(string \<Rightarrow> real option) \<Rightarrow> jval \<Rightarrow> py_error + real" where
  "py_float parse JNull = Inl TypeError"
| "py_float parse (JBool b) = Inr (if b then 1 else 0)"
| "py_float parse (JInt i) = (if float_range i then Inr (of_int i) else Inl OverflowError)"
| "py_float parse (JFloat r) = Inr r"
| "py_float parse (JStr s) = (case parse s of None \<Rightarrow> Inl ValueError | Some r \<Rightarrow> Inr r)"
| "py_float parse JArr = Inl TypeError"
| "py_float parse JObj = Inl TypeError"

text \<open>Assigning \<open>pet.last_updated\<close> in the object \<open>from_dict\<close> returned.\<close>

definition set_last_updated :: "'a Pet \<Rightarrow> 'b \<Rightarrow> 'b Pet" where
  "set_last_updated p t =
    \<lparr>name = name p, species = species p, hunger = hunger p, happiness = happiness p,
     energy = energy p, max_energy = max_energy p, level = level p, xp = xp p,
     coins = coins p, last_updated = t, evolve_at = evolve_at p, evolution = evolution p,
     evolved = evolved p, last_daily_claim = last_daily_claim p,
     last_gift_time = last_gift_time p, last_gift_amount = last_gift_amount p\<rparr>"

text \<open>
  The body of the loop of \<open>PetWorld.load\<close> for one entry. It reads the clock up to
  three times: for the default of \<open>from_dict\<close>, for the default of its own \<open>get\<close>,
  and in the \<open>except\<close> branch.
\<close>

record load_clock =
  t_default :: real
  t_get :: real
  t_except :: real

definition load_entry :: "(string \<Rightarrow> real option) \<Rightarrow> load_clock \<Rightarrow> pdata \<Rightarrow> pet" where
  "load_entry parse c d =
    (let pet0 = from_dict (t_default c) d in
     case py_float parse (get_or (d_last_updated d) (JFloat (t_get c))) of
       Inr t \<Rightarrow> set_last_updated pet0 t
     | Inl err \<Rightarrow> set_last_updated pet0 (t_except c))"

text \<open>
  The save file holds a document (a JSON object from pet names to entries) or does not
  exist. \<open>json.dump\<close> followed by \<open>json.load\<close> is taken to return the document it
  was given.
\<close>

type_synonym document = "string \<rightharpoonup> pdata"

definition save :: "world \<Rightarrow> document option" where
  "save w = Some (\<lambda>nm. map_option to_dict (pets w nm))"

definition load ::
  "(string \<Rightarrow> real option) \<Rightarrow> (string \<Rightarrow> load_clock) \<Rightarrow> document option \<Rightarrow> world
    \<Rightarrow> bool \<times> world_message \<times> world" where
  "load parse clock file w =
    (case file of
       None \<Rightarrow> (False, NoSaveFile, w)
     | Some raw \<Rightarrow>
       (True, Loaded,
        w\<lparr>pets := (\<lambda>nm. case raw nm of
                          None \<Rightarrow> pets w nm
                        | Some d \<Rightarrow> Some (load_entry parse (clock nm) d))\<rparr>))"

text \<open>\<open>PetWorld.__init__\<close>: an empty registry, loaded from the save file if it exists.\<close>

definition new_world ::
  "(string \<Rightarrow> real option) \<Rightarrow> (string \<Rightarrow> load_clock) \<Rightarrow> document option \<Rightarrow> world" where
  "new_world parse clock file =
    (let w = \<lparr>pets = Map.empty\<rparr> in
     if file \<noteq> None then snd (snd (load parse clock file w)) else w)"

subsection \<open>Concrete inputs\<close>

text \<open>A freshly created cat, and an environment in which no time has passed for it.\<close>

definition tom :: pet where
  "tom = factory_create_pet 0 ''Tom'' ''cat''"

definition env_still :: env where
  "env_still = \<lparr>now = 0, roll = 1, amt = 3, gift_now = 0\<rparr>"

definition no_parse :: "string \<Rightarrow> real option" where
  "no_parse s = None"

definition clock_zero :: "string \<Rightarrow> load_clock" where
  "clock_zero nm = \<lparr>t_default = 0, t_get = 0, t_except = 0\<rparr>"

text \<open>A calendar with two days, for evaluating \<open>daily_reward\<close>.\<close>

definition two_days :: "real \<Rightarrow> string" where
  "two_days t = (if t < 86400 then ''1970-01-01'' else ''1970-01-02'')"

text \<open>
  Ten hours after \<open>tom\<close> was created, with a random roll that grants a gift of 3
  coins.
\<close>

definition env_later :: env where
  "env_later = \<lparr>now = 36000, roll = 0, amt = 3, gift_now = 36000\<rparr>"

text \<open>
  A document entry whose stored values lie outside the documented ranges and whose
  \<open>last_updated\<close> is not a number.
\<close>

definition bad_entry :: pdata where
  "bad_entry = \<lparr>d_name = Some ''Tom'', d_species = Some ''cat'', d_hunger = Some 500,
     d_happiness = Some 50, d_energy = Some 50, d_max_energy = Some 100, d_level = Some 1,
     d_xp = Some 250, d_coins = Some (-7), d_last_updated = Some (JStr ''yesterday''),
     d_evolve_at = None, d_evolution = None, d_evolved = None, d_last_daily_claim = None,
     d_last_gift_time = None, d_last_gift_amount = None\<rparr>"

text \<open>\<open>tom\<close> with no energy left, and \<open>tom\<close> with no coins.\<close>

definition tired :: pet where
  "tired = tom\<lparr>energy := 0\<rparr>"

definition broke :: pet where
  "broke = tom\<lparr>coins := 0\<rparr>"

text \<open>The documented ranges of the clamped attributes and of \<open>xp\<close>.\<close>

definition in_range :: "pet \<Rightarrow> bool" where
  "in_range p \<longleftrightarrow> 0 \<le> hunger p \<and> hunger p \<le> 100 \<and> 0 \<le> happiness p \<and> happiness p \<le> 100
     \<and> 0 \<le> energy p \<and> energy p \<le> max_energy p"

definition xp_normal :: "pet \<Rightarrow> bool" where
  "xp_normal p \<longleftrightarrow> 0 \<le> xp p \<and> xp p < 100"

section \<open>Properties\<close>

subsection \<open>Evaluation of the concrete inputs\<close>

lemma tom_eval:
  "tom = \<lparr>name = Some ''Tom'', species = Some ''cat'', hunger = 30, happiness = 60,
          energy = 100, max_energy = 100, level = 1, xp = 0, coins = 50,
          last_updated = 0, evolve_at = 5, evolution = Some ''Big Cat'',
          evolved = False, last_daily_claim = 0, last_gift_time = 0,
          last_gift_amount = 0\<rparr>"
  by (simp add: tom_def factory_create_pet_def py_lower_def lower_char_def dict_get_def
      TEMPLATES_def cat_template_def)

subsection \<open>Leveling\<close>

lemma level_loop_closed:
  "level_loop p b =
    (p\<lparr>xp := xp p - 100 * levels_gained (xp p),
       level := level p + levels_gained (xp p),
       coins := coins p + 20 * levels_gained (xp p)\<rparr>,
     b \<or> 0 < levels_gained (xp p))"
proof (induction p b rule: level_loop.induct)
  case (1 p leveled_up)
  show ?case
  proof (cases "100 \<le> xp p")
    case False
    then show ?thesis
      by (subst level_loop.simps) (simp add: levels_gained_def)
  next
    case True
    have k: "levels_gained (xp p - 100) = levels_gained (xp p) - 1"
      using True by (auto simp: levels_gained_def)
    have pos: "0 < levels_gained (xp p)"
      using True by (simp add: levels_gained_def)
    have "level_loop p leveled_up =
        level_loop (p\<lparr>xp := xp p - 100, level := level p + 1, coins := coins p + 20\<rparr>) True"
      using True by (subst level_loop.simps) simp
    also have "\<dots> = (p\<lparr>xp := xp p - 100 * levels_gained (xp p),
        level := level p + levels_gained (xp p),
        coins := coins p + 20 * levels_gained (xp p)\<rparr>, True)"
      using True by (subst "1.IH") (simp_all add: k algebra_simps)
    finally show ?thesis
      using pos by simp
  qed
qed

lemma gain_xp_closed:
  "gain_xp amount p =
    (let x = xp p + amount; k = levels_gained x in
     (0 < k \<and> \<not> evolved p \<and> evolve_at p \<le> level p + k,
      p\<lparr>xp := x - 100 * k, level := level p + k, coins := coins p + 20 * k,
        evolved := evolved p \<or> (0 < k \<and> evolve_at p \<le> level p + k)\<rparr>))"
  by (cases p) (auto simp: gain_xp_def level_loop_closed Let_def)

text \<open>
  Claim C5. \<open>_gain_xp\<close> adds the amount to \<open>xp\<close> and then runs the level-up loop as
  often as \<open>xp \<ge> 100\<close> allows: with \<open>x\<close> the sum and \<open>k\<close> the number of rounds
  (\<open>x div 100\<close> when \<open>x \<ge> 100\<close>, none otherwise), it leaves \<open>xp = x - 100 k\<close>, raises
  \<open>level\<close> by \<open>k\<close> and \<open>coins\<close> by \<open>20 k\<close>, so one large gain levels up several
  times. \<open>evolved\<close> becomes true exactly when it was true before, or a level-up
  happened and the new level reaches \<open>evolve_at\<close>; the call returns true exactly when
  it newly set the flag. No other field changes.
\<close>

theorem gain_xp_levels:
  "gain_xp amount p =
    (let x = xp p + amount; k = (if 100 \<le> x then x div 100 else 0) in
     (0 < k \<and> \<not> evolved p \<and> evolve_at p \<le> level p + k,
      p\<lparr>xp := x - 100 * k, level := level p + k, coins := coins p + 20 * k,
        evolved := evolved p \<or> (0 < k \<and> evolve_at p \<le> level p + k)\<rparr>))"
  by (simp add: gain_xp_closed levels_gained_def Let_def)

theorem gain_xp_levels_witness:
  "gain_xp 250 (tom\<lparr>level := 4, xp := 90\<rparr>)
    = (True, tom\<lparr>level := 7, xp := 40, coins := 110, evolved := True\<rparr>)"
  using gain_xp_levels [of 250 "tom\<lparr>level := 4, xp := 90\<rparr>"]
  by (simp add: tom_eval)

subsection \<open>Persistence\<close>

lemma load_entry_to_dict: "load_entry parse c (to_dict p) = p"
  by (cases p)
    (simp add: load_entry_def to_dict_def from_dict_def set_last_updated_def get_or_def)

text \<open>
  Claim C4. Saving a registry and loading the saved document into a fresh, empty
  registry gives back the registry: every pet under its name with every attribute as
  it was. Here this includes \<open>last_updated\<close>, since \<open>load\<close> converts the stored number
  and applies no decay. The same holds for a registry constructed while the save file
  exists.
\<close>

theorem save_load_roundtrip:
  "load parse clock (save w) \<lparr>pets = Map.empty\<rparr> = (True, Loaded, w)
   \<and> new_world parse clock (save w) = w"
proof -
  have "load parse clock (save w) \<lparr>pets = Map.empty\<rparr> = (True, Loaded, w)"
    by (cases w)
      (auto simp: load_def save_def load_entry_to_dict fun_eq_iff split: option.splits)
  then show ?thesis
    by (simp add: new_world_def save_def)
qed

theorem save_load_roundtrip_witness:
  "load no_parse clock_zero (save \<lparr>pets = [''Tom'' \<mapsto> tom]\<rparr>) \<lparr>pets = Map.empty\<rparr>
    = (True, Loaded, \<lparr>pets = [''Tom'' \<mapsto> tom]\<rparr>)"
  using save_load_roundtrip [of no_parse clock_zero "\<lparr>pets = [''Tom'' \<mapsto> tom]\<rparr>"]
  by simp

subsection \<open>Pet creation\<close>

lemma templates_cat: "map_of TEMPLATES ''cat'' = Some cat_template"
  by (simp add: TEMPLATES_def)

lemma lower_cat: "py_lower ''cat'' = ''cat''"
  by (simp add: py_lower_def lower_char_def)

text \<open>
  Claim C9. Creation stores the lower-cased species. When the lower-cased species is
  not a key of \<open>TEMPLATES\<close>, creation still succeeds and the pet has the attributes
  of the cat template (it is the pet that species \<open>cat\<close> would give, apart from the
  stored species string). \<open>PetWorld.create_pet\<close> succeeds exactly when the stripped
  name is non-empty and not yet in the registry, whatever the species, and then stores
  the factory's pet under the stripped name.
\<close>

theorem create_pet_unknown_species:
  "species (factory_create_pet t nm sp) = Some (py_lower sp)
   \<and> (map_of TEMPLATES (py_lower sp) = None \<longrightarrow>
        factory_create_pet t nm sp
          = (factory_create_pet t nm ''cat'')\<lparr>species := Some (py_lower sp)\<rparr>
        \<and> max_energy (factory_create_pet t nm sp) = 100
        \<and> energy (factory_create_pet t nm sp) = 100
        \<and> hunger (factory_create_pet t nm sp) = 30
        \<and> happiness (factory_create_pet t nm sp) = 60
        \<and> evolve_at (factory_create_pet t nm sp) = 5
        \<and> evolution (factory_create_pet t nm sp) = Some ''Big Cat'')
   \<and> (fst (create_pet t nm0 sp w) \<longleftrightarrow> py_strip nm0 \<noteq> [] \<and> py_strip nm0 \<notin> dom (pets w))
   \<and> (py_strip nm0 \<noteq> [] \<and> py_strip nm0 \<notin> dom (pets w) \<longrightarrow>
        create_pet t nm0 sp w
          = (True, Created,
             w\<lparr>pets := (pets w)(py_strip nm0 \<mapsto> factory_create_pet t (py_strip nm0) sp)\<rparr>))"
  by (simp add: factory_create_pet_def create_pet_def dict_get_def Let_def
      lower_cat templates_cat cat_template_def)

theorem create_pet_unknown_species_witness:
  "create_pet 7 ''  Rex '' ''Unicorn'' \<lparr>pets = Map.empty\<rparr>
     = (True, Created,
        \<lparr>pets = [''Rex'' \<mapsto> (factory_create_pet 7 ''Rex'' ''cat'')\<lparr>species := Some ''unicorn''\<rparr>]\<rparr>)
   \<and> fst (create_pet 7 ''   '' ''cat'' \<lparr>pets = Map.empty\<rparr>) = False
   \<and> fst (create_pet 7 ''Tom'' ''dog'' \<lparr>pets = [''Tom'' \<mapsto> tom]\<rparr>) = False"
  using create_pet_unknown_species [of 7 "''Rex''" "''Unicorn''" "''  Rex ''" "\<lparr>pets = Map.empty\<rparr>"]
    create_pet_unknown_species [of 7 "''Rex''" "''cat''" "''   ''" "\<lparr>pets = Map.empty\<rparr>"]
    create_pet_unknown_species [of 7 "''Rex''" "''dog''" "''Tom''" "\<lparr>pets = [''Tom'' \<mapsto> tom]\<rparr>"]
  by (simp add: py_lower_def lower_char_def py_strip_def is_space_def TEMPLATES_def)

subsection \<open>Daily reward\<close>

text \<open>
  Claim C7. Clock readings are taken to be after the epoch (a recorded claim time of
  \<open>0.0\<close> is the source's marker for "never claimed") and the two clock reads of one
  call to fall on the same date. If a call made on the date of \<open>t1\<close> succeeded and
  recorded the claim time \<open>c1\<close>, a second call on that same date returns failure with
  the already-claimed message and leaves the pet, so also \<open>coins\<close> and
  \<open>last_daily_claim\<close>, unchanged. Conversely a call on a date that differs from the
  date of the last recorded claim (or with no claim recorded) succeeds, adds the
  daily amount of 20 coins and records the claim time, changing nothing else.
\<close>

theorem daily_reward_once_per_day:
  "(fst (daily_reward day_of t1 c1 p) \<and> c1 \<noteq> 0 \<and> day_of c1 = day_of t1 \<and> day_of t2 = day_of t1 \<longrightarrow>
      daily_reward day_of t2 c2 (snd (snd (daily_reward day_of t1 c1 p)))
        = (False, DailyAlreadyClaimed, snd (snd (daily_reward day_of t1 c1 p))))
   \<and> (last_daily_claim p = 0 \<or> day_of (last_daily_claim p) \<noteq> day_of t2 \<longrightarrow>
      daily_reward day_of t2 c2 p
        = (True, DailyClaimed, p\<lparr>coins := coins p + 20, last_daily_claim := c2\<rparr>))"
  by (auto simp: daily_reward_def Let_def DAILY_REWARD_COINS_def)

theorem daily_reward_once_per_day_witness:
  "daily_reward two_days 100 101 tom
     = (True, DailyClaimed, tom\<lparr>coins := 70, last_daily_claim := 101\<rparr>)
   \<and> daily_reward two_days 200 201 (tom\<lparr>coins := 70, last_daily_claim := 101\<rparr>)
     = (False, DailyAlreadyClaimed, tom\<lparr>coins := 70, last_daily_claim := 101\<rparr>)
   \<and> daily_reward two_days 90000 90001 (tom\<lparr>coins := 70, last_daily_claim := 101\<rparr>)
     = (True, DailyClaimed, tom\<lparr>coins := 90, last_daily_claim := 90001\<rparr>)"
  using daily_reward_once_per_day [of two_days 100 101 tom 200 201]
    daily_reward_once_per_day [of two_days 100 101 "tom\<lparr>coins := 70, last_daily_claim := 101\<rparr>" 90000 90001]
    daily_reward_once_per_day [of two_days 100 101 tom 100 101]
  by (simp add: two_days_def tom_eval)

subsection \<open>Loading entries\<close>

lemma load_entry_fields:
  "name (load_entry parse c d) = name (from_dict (t_default c) d)"
  "species (load_entry parse c d) = species (from_dict (t_default c) d)"
  "hunger (load_entry parse c d) = hunger (from_dict (t_default c) d)"
  "happiness (load_entry parse c d) = happiness (from_dict (t_default c) d)"
  "energy (load_entry parse c d) = energy (from_dict (t_default c) d)"
  "max_energy (load_entry parse c d) = max_energy (from_dict (t_default c) d)"
  "level (load_entry parse c d) = level (from_dict (t_default c) d)"
  "xp (load_entry parse c d) = xp (from_dict (t_default c) d)"
  "coins (load_entry parse c d) = coins (from_dict (t_default c) d)"
  "evolve_at (load_entry parse c d) = evolve_at (from_dict (t_default c) d)"
  "evolution (load_entry parse c d) = evolution (from_dict (t_default c) d)"
  "evolved (load_entry parse c d) = evolved (from_dict (t_default c) d)"
  "last_daily_claim (load_entry parse c d) = last_daily_claim (from_dict (t_default c) d)"
  "last_gift_time (load_entry parse c d) = last_gift_time (from_dict (t_default c) d)"
  "last_gift_amount (load_entry parse c d) = last_gift_amount (from_dict (t_default c) d)"
  by (simp_all add: load_entry_def set_last_updated_def Let_def split: sum.splits)

lemma load_entry_last_updated:
  "last_updated (load_entry parse c d) =
    (case d_last_updated d of
       None \<Rightarrow> t_get c
     | Some v \<Rightarrow> (case py_float parse v of Inr t \<Rightarrow> t | Inl err \<Rightarrow> t_except c))"
  by (simp add: load_entry_def set_last_updated_def Let_def get_or_def
      split: sum.splits option.splits)

text \<open>
  Claim C10. For an entry \<open>d\<close> of the document, \<open>PetWorld.load\<close> (through
  \<open>Pet.from_dict\<close>) gives every field whose key is present the stored value as it is,
  with no clamping or validation, and gives a field whose key is missing its default
  (\<open>energy\<close> defaults to the entry's \<open>max_energy\<close>). \<open>from_dict\<close> copies
  \<open>last_updated\<close> as it is stored; \<open>load\<close> then converts it with \<open>float\<close> and
  takes the current time only when the conversion raises or the key is missing.
  Hence there are entries whose loaded pet has \<open>xp \<ge> 100\<close>, \<open>hunger > 100\<close> and
  negative \<open>coins\<close>.
\<close>

theorem from_dict_verbatim:
  "(\<forall>v. d_hunger d = Some v \<longrightarrow> hunger (load_entry parse c d) = v)
   \<and> (\<forall>v. d_happiness d = Some v \<longrightarrow> happiness (load_entry parse c d) = v)
   \<and> (\<forall>v. d_energy d = Some v \<longrightarrow> energy (load_entry parse c d) = v)
   \<and> (\<forall>v. d_max_energy d = Some v \<longrightarrow> max_energy (load_entry parse c d) = v)
   \<and> (\<forall>v. d_level d = Some v \<longrightarrow> level (load_entry parse c d) = v)
   \<and> (\<forall>v. d_xp d = Some v \<longrightarrow> xp (load_entry parse c d) = v)
   \<and> (\<forall>v. d_coins d = Some v \<longrightarrow> coins (load_entry parse c d) = v)
   \<and> (\<forall>v. d_evolve_at d = Some v \<longrightarrow> evolve_at (load_entry parse c d) = v)
   \<and> (\<forall>v. d_evolved d = Some v \<longrightarrow> evolved (load_entry parse c d) = v)
   \<and> (\<forall>v. d_last_daily_claim d = Some v \<longrightarrow> last_daily_claim (load_entry parse c d) = v)
   \<and> (\<forall>v. d_last_gift_time d = Some v \<longrightarrow> last_gift_time (load_entry parse c d) = v)
   \<and> (\<forall>v. d_last_gift_amount d = Some v \<longrightarrow> last_gift_amount (load_entry parse c d) = v)
   \<and> name (load_entry parse c d) = d_name d
   \<and> species (load_entry parse c d) = d_species d
   \<and> evolution (load_entry parse c d) = d_evolution d
   \<and> (\<forall>v. d_last_updated d = Some v \<longrightarrow> last_updated (from_dict t d) = v)
   \<and> (\<forall>v r. d_last_updated d = Some v \<and> py_float parse v = Inr r \<longrightarrow>
         last_updated (load_entry parse c d) = r)
   \<and> (\<forall>v err. d_last_updated d = Some v \<and> py_float parse v = Inl err \<longrightarrow>
         last_updated (load_entry parse c d) = t_except c)
   \<and> (d_last_updated d = None \<longrightarrow> last_updated (load_entry parse c d) = t_get c)
   \<and> (d_hunger d = None \<longrightarrow> hunger (load_entry parse c d) = 50)
   \<and> (d_happiness d = None \<longrightarrow> happiness (load_entry parse c d) = 50)
   \<and> (d_energy d = None \<longrightarrow> energy (load_entry parse c d) = max_energy (load_entry parse c d))
   \<and> (d_max_energy d = None \<longrightarrow> max_energy (load_entry parse c d) = 100)
   \<and> (d_level d = None \<longrightarrow> level (load_entry parse c d) = 1)
   \<and> (d_xp d = None \<longrightarrow> xp (load_entry parse c d) = 0)
   \<and> (d_coins d = None \<longrightarrow> coins (load_entry parse c d) = 50)
   \<and> (d_evolve_at d = None \<longrightarrow> evolve_at (load_entry parse c d) = 999)
   \<and> (d_evolved d = None \<longrightarrow> evolved (load_entry parse c d) = False)
   \<and> (d_last_daily_claim d = None \<longrightarrow> last_daily_claim (load_entry parse c d) = 0)
   \<and> (d_last_gift_time d = None \<longrightarrow> last_gift_time (load_entry parse c d) = 0)
   \<and> (d_last_gift_amount d = None \<longrightarrow> last_gift_amount (load_entry parse c d) = 0)
   \<and> (\<exists>d'. 100 \<le> xp (load_entry parse c d') \<and> 100 < hunger (load_entry parse c d')
           \<and> coins (load_entry parse c d') < 0)"
proof -
  have ex: "\<exists>d'. 100 \<le> xp (load_entry parse c d') \<and> 100 < hunger (load_entry parse c d')
           \<and> coins (load_entry parse c d') < 0"
    by (rule exI [of _ bad_entry])
      (simp add: load_entry_fields from_dict_def bad_entry_def get_or_def)
  show ?thesis
    using ex
    by (simp add: load_entry_fields load_entry_last_updated from_dict_def get_or_def)
qed

theorem from_dict_verbatim_witness:
  "xp (load_entry no_parse (clock_zero ''Tom'') bad_entry) = 250
   \<and> hunger (load_entry no_parse (clock_zero ''Tom'') bad_entry) = 500
   \<and> coins (load_entry no_parse (clock_zero ''Tom'') bad_entry) = -7
   \<and> last_updated (load_entry no_parse (clock_zero ''Tom'') bad_entry) = 0
   \<and> evolve_at (load_entry no_parse (clock_zero ''Tom'') bad_entry) = 999"
  using from_dict_verbatim [of bad_entry no_parse "clock_zero ''Tom''" 0]
  by (simp add: bad_entry_def no_parse_def clock_zero_def)

subsection \<open>Refresh and the shop\<close>

lemma refresh_still: "now e \<le> last_updated p \<Longrightarrow> refresh e p = p"
  by (simp add: refresh_def)

lemma refresh_idem: "refresh e (refresh e p) = refresh e p"
  by (simp add: refresh_def Let_def)

lemma buy_item_food:
  "buy_item ''food'' p = Inr
    (if coins p < 5 then (False, NotEnoughCoins, p)
     else (True, UsedFood,
           snd (gain_xp 5 (p\<lparr>coins := coins p - 5, hunger := max 0 (hunger p - 25),
                             happiness := min 100 (happiness p + 5)\<rparr>))))"
  by (simp add: buy_item_def SHOP_ITEMS_def subscript_def dict_get_def Let_def)

lemma buy_item_toy:
  "buy_item ''toy'' p = Inr
    (if coins p < 10 then (False, NotEnoughCoins, p)
     else if energy p < 5 then (False, TooTiredToy, p)
     else (True, PlayedToy,
           snd (gain_xp 10 (p\<lparr>coins := coins p - 10, energy := max 0 (energy p - 5),
                              happiness := min 100 (happiness p + 20)\<rparr>))))"
  by (cases p) (simp add: buy_item_def SHOP_ITEMS_def subscript_def dict_get_def Let_def)

lemma buy_item_energy_drink:
  "buy_item ''energy_drink'' p = Inr
    (if coins p < 8 then (False, NotEnoughCoins, p)
     else (True, DrankEnergy,
           snd (gain_xp 7 (p\<lparr>coins := coins p - 8,
                             energy := min (max_energy p) (energy p + 30),
                             happiness := min 100 (happiness p + 2)\<rparr>))))"
  by (simp add: buy_item_def SHOP_ITEMS_def subscript_def dict_get_def Let_def)

lemma buy_item_unknown:
  "k \<noteq> ''food'' \<Longrightarrow> k \<noteq> ''toy'' \<Longrightarrow> k \<noteq> ''energy_drink'' \<Longrightarrow>
    buy_item k p = Inr (False, InvalidItem, p)"
  by (simp add: buy_item_def SHOP_ITEMS_def)

lemma shop_keys:
  "map_of SHOP_ITEMS k = Some item \<Longrightarrow>
    (k = ''food'' \<and> map_of item ''price'' = Some 5)
    \<or> (k = ''toy'' \<and> map_of item ''price'' = Some 10)
    \<or> (k = ''energy_drink'' \<and> map_of item ''price'' = Some 8)"
  by (auto simp: SHOP_ITEMS_def split: if_splits)

lemma shop_none:
  "map_of SHOP_ITEMS k = None \<longleftrightarrow> k \<noteq> ''food'' \<and> k \<noteq> ''toy'' \<and> k \<noteq> ''energy_drink''"
  by (simp add: SHOP_ITEMS_def)

lemma buy_item_total: "\<exists>r. buy_item k p = Inr r"
proof (cases "k = ''food'' \<or> k = ''toy'' \<or> k = ''energy_drink''")
  case True
  then show ?thesis
    by (auto simp: buy_item_food buy_item_toy buy_item_energy_drink)
next
  case False
  then show ?thesis by (auto simp: buy_item_unknown)
qed

lemma buy_item_failed: "buy_item k p = Inr (False, m, p') \<Longrightarrow> p' = p"
proof (cases "k = ''food'' \<or> k = ''toy'' \<or> k = ''energy_drink''")
  case True
  assume "buy_item k p = Inr (False, m, p')"
  with True show ?thesis
    by (auto simp: buy_item_food buy_item_toy buy_item_energy_drink split: if_splits)
next
  case False
  assume "buy_item k p = Inr (False, m, p')"
  with False show ?thesis by (simp add: buy_item_unknown)
qed

lemma buy_item_poor:
  "map_of SHOP_ITEMS k = Some item \<Longrightarrow> map_of item ''price'' = Some price \<Longrightarrow>
    coins p < price \<Longrightarrow> buy_item k p = Inr (False, NotEnoughCoins, p)"
  by (drule shop_keys) (auto simp: buy_item_food buy_item_toy buy_item_energy_drink)

lemma env_still_eval: "now env_still = 0" "roll env_still = 1" "amt env_still = 3"
  by (simp_all add: env_still_def)

lemma env_later_eval: "now env_later = 36000" "roll env_later = 0" "amt env_later = 3"
  "gift_now env_later = 36000"
  by (simp_all add: env_later_def)

lemma refresh_later_tired:
  "refresh env_later tired = tired\<lparr>hunger := 50, energy := 10, happiness := 55, coins := 53,
     last_gift_time := 36000, last_gift_amount := 3, last_updated := 36000\<rparr>"
  by (simp add: refresh_def apply_time_decay_def maybe_random_gift_def env_later_eval tired_def
      tom_eval Let_def config)

lemma refresh_later_broke:
  "refresh env_later broke = broke\<lparr>hunger := 50, coins := 3,
     last_gift_time := 36000, last_gift_amount := 3, last_updated := 36000\<rparr>"
  by (simp add: refresh_def apply_time_decay_def maybe_random_gift_def env_later_eval broke_def
      tom_eval Let_def config)

lemma actions_refresh_first:
  "feed e use_item fs (refresh e p) = feed e use_item fs p"
  "play e m (refresh e p) = play e m p"
  "rest e m (refresh e p) = rest e m p"
  "do_job e m (refresh e p) = do_job e m p"
  by (simp_all add: feed_def play_def rest_def do_job_def refresh_idem)

subsection \<open>Refresh before every action\<close>

text \<open>
  Claim C1. \<open>feed\<close>, \<open>play\<close>, \<open>rest\<close> and \<open>do_job\<close> run \<open>refresh\<close> before
  anything else (lemma \<open>actions_refresh_first\<close>), but \<open>buy_item\<close> and
  \<open>daily_reward\<close> do not. Evaluation at the pet \<open>tired\<close> (energy 0, last updated at
  time 0) ten hours later: \<open>buy_item "toy"\<close> checks the stale energy 0 and fails,
  leaving \<open>last_updated\<close> at 0, although a refresh would have raised the energy to 10,
  enough for the toy's cost of 5, and the purchase would then succeed.
  \<open>daily_reward\<close> at the same time changes only \<open>coins\<close> and \<open>last_daily_claim\<close>:
  no decay is applied and \<open>last_updated\<close> stays.
\<close>

theorem buy_item_skips_refresh:
  "buy_item ''toy'' tired = Inr (False, TooTiredToy, tired)
   \<and> fst (projr (buy_item ''toy'' (refresh env_later tired))) = True
   \<and> last_updated (snd (snd (projr (buy_item ''toy'' tired)))) = 0
   \<and> now env_later = 36000
   \<and> snd (snd (daily_reward two_days 36000 36000 tired))
       = tired\<lparr>coins := 70, last_daily_claim := 36000\<rparr>
   \<and> energy (refresh env_later tired) = 10"
  by (simp add: buy_item_toy refresh_later_tired daily_reward_def two_days_def Let_def
      DAILY_REWARD_COINS_def env_later_eval) (simp add: tired_def tom_eval)

subsection \<open>Failed actions\<close>

text \<open>
  Claim C2 as stated fails: ten hours after its last update, a pet with no coins is
  refused by \<open>feed\<close>, but the call has already run \<open>refresh\<close>, which here raised
  the hunger, granted a random gift of 3 coins and moved \<open>last_updated\<close>. The pet
  is not unchanged, and neither are its coins.
\<close>

theorem failed_feed_counterexample:
  "coins broke < FEED_COST
   \<and> fst (feed env_later False 20 broke) = False
   \<and> snd (snd (feed env_later False 20 broke)) \<noteq> broke
   \<and> coins (snd (snd (feed env_later False 20 broke))) = 3
   \<and> coins broke = 0"
  by (simp add: feed_def refresh_later_broke Let_def FEED_COST_def) (simp add: broke_def tom_eval)

text \<open>
  Claim C2, amended. For every action call whose precondition fails, where the
  duration given to \<open>play\<close> or \<open>do_job\<close> converts to a float, the call returns a
  failure result, and the pet's state after the call is the state the time-decay
  routine produced. \<open>feed\<close>, \<open>play\<close> and \<open>do_job\<close> have run \<open>refresh\<close> before
  the check, so after a failed call the pet is the refreshed pet (the pet as it was
  when no time has elapsed). \<open>buy_item\<close> and \<open>daily_reward\<close> do not refresh, and
  after a failed call the pet's state equals its state before the call; on the toy
  path this is the state after the price was deducted and refunded. \<open>buy_item\<close>
  never raises. A non-positive duration is refused by \<open>do_job\<close> whatever its size.
  Thresholds are compared in exact arithmetic.
\<close>

theorem failed_action_state:
  "(\<not> fst (feed e use_item fs p) \<longrightarrow> snd (snd (feed e use_item fs p)) = refresh e p)
   \<and> (\<not> use_item \<and> coins (refresh e p) < FEED_COST \<longrightarrow>
        feed e use_item fs p = (False, NotEnoughCoinsFood, refresh e p))
   \<and> (float_range m \<and> \<not> fst (play e m p) \<longrightarrow> snd (snd (play e m p)) = refresh e p)
   \<and> (float_range m \<and> energy (refresh e p) < of_int m * (5 / 10) \<longrightarrow>
        play e m p = (False, TooTiredPlay, refresh e p))
   \<and> (float_range m \<and> \<not> fst (do_job e m p) \<longrightarrow> snd (snd (do_job e m p)) = refresh e p)
   \<and> (m \<le> 0 \<longrightarrow> do_job e m p = (False, InvalidJobDuration, refresh e p))
   \<and> (0 < m \<and> float_range m \<and> energy (refresh e p) < of_int m * (3 / 10) \<longrightarrow>
        do_job e m p = (False, TooTiredWork, refresh e p))
   \<and> (now e \<le> last_updated p \<longrightarrow> refresh e p = p)
   \<and> (\<exists>r. buy_item k p = Inr r)
   \<and> (\<forall>msg p'. buy_item k p = Inr (False, msg, p') \<longrightarrow> p' = p)
   \<and> (map_of SHOP_ITEMS k = None \<longrightarrow> buy_item k p = Inr (False, InvalidItem, p))
   \<and> (\<forall>item price. map_of SHOP_ITEMS k = Some item \<and> map_of item ''price'' = Some price
         \<and> coins p < price \<longrightarrow> buy_item k p = Inr (False, NotEnoughCoins, p))
   \<and> (10 \<le> coins p \<and> energy p < 5 \<longrightarrow> buy_item ''toy'' p = Inr (False, TooTiredToy, p))
   \<and> (\<not> fst (daily_reward day_of t c p) \<longrightarrow> snd (snd (daily_reward day_of t c p)) = p)
   \<and> (last_daily_claim p \<noteq> 0 \<and> day_of (last_daily_claim p) = day_of t \<longrightarrow>
        daily_reward day_of t c p = (False, DailyAlreadyClaimed, p))"
proof -
  have f: "\<not> fst (feed e use_item fs p) \<longrightarrow> snd (snd (feed e use_item fs p)) = refresh e p"
    "\<not> use_item \<and> coins (refresh e p) < FEED_COST \<longrightarrow>
        feed e use_item fs p = (False, NotEnoughCoinsFood, refresh e p)"
    by (simp_all add: feed_def Let_def)
  have pl: "\<not> fst (play e m p) \<longrightarrow> snd (snd (play e m p)) = refresh e p"
    "energy (refresh e p) < of_int m * (5 / 10) \<longrightarrow>
        play e m p = (False, TooTiredPlay, refresh e p)"
    by (simp_all add: play_def Let_def)
  have j: "\<not> fst (do_job e m p) \<longrightarrow> snd (snd (do_job e m p)) = refresh e p"
    "m \<le> 0 \<longrightarrow> do_job e m p = (False, InvalidJobDuration, refresh e p)"
    "0 < m \<and> energy (refresh e p) < of_int m * (3 / 10) \<longrightarrow>
        do_job e m p = (False, TooTiredWork, refresh e p)"
    by (simp_all add: do_job_def Let_def)
  have b: "\<exists>r. buy_item k p = Inr r"
    "\<forall>msg p'. buy_item k p = Inr (False, msg, p') \<longrightarrow> p' = p"
    "map_of SHOP_ITEMS k = None \<longrightarrow> buy_item k p = Inr (False, InvalidItem, p)"
    "\<forall>item price. map_of SHOP_ITEMS k = Some item \<and> map_of item ''price'' = Some price
         \<and> coins p < price \<longrightarrow> buy_item k p = Inr (False, NotEnoughCoins, p)"
    "10 \<le> coins p \<and> energy p < 5 \<longrightarrow> buy_item ''toy'' p = Inr (False, TooTiredToy, p)"
    using buy_item_total buy_item_failed buy_item_poor
    by (blast, blast, simp add: buy_item_def, blast, simp add: buy_item_toy)
  have d: "\<not> fst (daily_reward day_of t c p) \<longrightarrow> snd (snd (daily_reward day_of t c p)) = p"
    "last_daily_claim p \<noteq> 0 \<and> day_of (last_daily_claim p) = day_of t \<longrightarrow>
        daily_reward day_of t c p = (False, DailyAlreadyClaimed, p)"
    by (simp_all add: daily_reward_def Let_def)
  have r: "now e \<le> last_updated p \<longrightarrow> refresh e p = p"
    by (simp add: refresh_still)
  from f pl j b d r show ?thesis by blast
qed

theorem failed_action_state_witness:
  "feed env_later False 20 broke = (False, NotEnoughCoinsFood, refresh env_later broke)
   \<and> play env_still 300 tom = (False, TooTiredPlay, tom)
   \<and> do_job env_still 0 tom = (False, InvalidJobDuration, tom)
   \<and> do_job env_still 400 tom = (False, TooTiredWork, tom)
   \<and> buy_item ''sword'' tom = Inr (False, InvalidItem, tom)
   \<and> buy_item ''food'' broke = Inr (False, NotEnoughCoins, broke)
   \<and> buy_item ''toy'' tired = Inr (False, TooTiredToy, tired)
   \<and> daily_reward two_days 200 201 (tom\<lparr>last_daily_claim := 101\<rparr>)
       = (False, DailyAlreadyClaimed, tom\<lparr>last_daily_claim := 101\<rparr>)"
  using failed_action_state [of env_later False 20 broke 0 "''food''" two_days 0 0]
    failed_action_state [of env_still False 20 tom 300 "''sword''" two_days 0 0]
    failed_action_state [of env_still False 20 tom 0 "''sword''" two_days 0 0]
    failed_action_state [of env_still False 20 tom 400 "''sword''" two_days 0 0]
    failed_action_state [of env_still False 20 tired 0 "''toy''" two_days 0 0]
    failed_action_state [of env_still False 20 "tom\<lparr>last_daily_claim := 101\<rparr>" 0 "''toy''" two_days 200 201]
  by (simp add: refresh_later_broke FEED_COST_def SHOP_ITEMS_def env_still_eval two_days_def
      float_range_def FLOAT_LIMIT_def)
    (simp add: broke_def tired_def tom_eval)

subsection \<open>Work\<close>

text \<open>
  Claim C8 as stated fails for a pet that is close to a level-up: with energy 100,
  no elapsed time and \<open>xp = 95\<close>, \<open>do_job(100)\<close> succeeds, but the gain of 10 XP
  crosses 100, so \<open>xp\<close> ends at 5 and the level-up bonus makes the coins rise by 40.
\<close>

theorem do_job_100_counterexample:
  "energy (tom\<lparr>xp := 95\<rparr>) = 100 \<and> now env_still \<le> last_updated (tom\<lparr>xp := 95\<rparr>)
   \<and> fst (do_job env_still 100 (tom\<lparr>xp := 95\<rparr>))
   \<and> coins (snd (snd (do_job env_still 100 (tom\<lparr>xp := 95\<rparr>)))) = coins (tom\<lparr>xp := 95\<rparr>) + 40
   \<and> xp (snd (snd (do_job env_still 100 (tom\<lparr>xp := 95\<rparr>)))) = 5
   \<and> \<not> (coins (snd (snd (do_job env_still 100 (tom\<lparr>xp := 95\<rparr>)))) = coins (tom\<lparr>xp := 95\<rparr>) + 20
        \<and> xp (snd (snd (do_job env_still 100 (tom\<lparr>xp := 95\<rparr>)))) = xp (tom\<lparr>xp := 95\<rparr>) + 10)"
  by (simp add: do_job_def refresh_def env_still_eval tom_eval Let_def gain_xp_closed
      levels_gained_def py_int_def JOB_COIN_RATE_PER_MIN_def)

text \<open>
  Claim C8, amended. With no elapsed time since \<open>last_updated\<close>, \<open>do_job(100)\<close>
  succeeds exactly when \<open>energy \<ge> 30\<close>; for a pet with \<open>energy = 100\<close> and
  \<open>xp < 90\<close> (such as a fresh pet) it leaves \<open>energy = 70\<close>, increases \<open>coins\<close> by
  exactly 20 and \<open>xp\<close> by exactly 10, and changes nothing else.
\<close>

theorem do_job_100:
  "(now e \<le> last_updated p \<longrightarrow> (fst (do_job e 100 p) \<longleftrightarrow> 30 \<le> energy p))
   \<and> (now e \<le> last_updated p \<and> energy p = 100 \<and> xp p < 90 \<longrightarrow>
        do_job e 100 p
          = (True, Worked, p\<lparr>energy := 70, coins := coins p + 20, xp := xp p + 10\<rparr>))"
  by (cases p) (auto simp: do_job_def refresh_still Let_def gain_xp_closed
      levels_gained_def py_int_def JOB_COIN_RATE_PER_MIN_def)

theorem do_job_100_witness:
  "do_job env_still 100 tom = (True, Worked, tom\<lparr>energy := 70, coins := 70, xp := 10\<rparr>)
   \<and> fst (do_job env_still 100 (tom\<lparr>energy := 29\<rparr>)) = False"
  using do_job_100 [of env_still tom] do_job_100 [of env_still "tom\<lparr>energy := 29\<rparr>"]
  by (simp add: env_still_eval tom_eval)

subsection \<open>Negative durations\<close>

text \<open>
  Claim C3. \<open>play\<close> and \<open>rest\<close> accept a negative number of minutes (only
  \<open>do_job\<close> rejects it), and their clamps are one-sided. Evaluation at the fresh
  cat, whose attributes lie in their ranges: \<open>play(-100)\<close> succeeds and leaves
  \<open>energy = 150\<close> above \<open>max_energy = 100\<close>; \<open>rest(-1000)\<close> leaves
  \<open>energy = -700\<close>.
\<close>

theorem play_negative_minutes_energy:
  "hunger tom = 30 \<and> happiness tom = 60 \<and> energy tom = 100 \<and> max_energy tom = 100
   \<and> fst (play env_still (- 100) tom)
   \<and> energy (snd (snd (play env_still (- 100) tom))) = 150
   \<and> max_energy (snd (snd (play env_still (- 100) tom))) = 100
   \<and> energy (snd (snd (rest env_still (- 1000) tom))) = - 700"
  by (simp add: play_def rest_def refresh_def env_still_eval tom_eval Let_def gain_xp_closed
      levels_gained_def py_int_def PLAY_COIN_REWARD_def REST_COIN_REWARD_def)

text \<open>
  Claim C6. Evaluation at the fresh cat with \<open>xp = 0\<close>: \<open>play(-100)\<close> succeeds and
  gains \<open>15 + int(-100 / 5) = -5\<close> XP, leaving \<open>xp = -5\<close>.
\<close>

theorem play_negative_minutes_xp:
  "xp tom = 0 \<and> fst (play env_still (- 100) tom)
   \<and> xp (snd (snd (play env_still (- 100) tom))) = - 5"
  by (simp add: play_def refresh_def env_still_eval tom_eval Let_def gain_xp_closed
      levels_gained_def py_int_def PLAY_COIN_REWARD_def)

subsection \<open>Ranges under non-negative durations\<close>

text \<open>
  For durations and food strengths that are not negative, every action keeps
  \<open>hunger\<close> and \<open>happiness\<close> in \<open>[0, 100]\<close>, \<open>energy\<close> in \<open>[0, max_energy]\<close>
  and \<open>xp\<close> in \<open>[0, 100)\<close>.
\<close>

lemma apply_time_decay_in_range:
  assumes "in_range p"
  shows "in_range (apply_time_decay s p)"
proof -
  define h where "h = s / 3600"
  have eq: "apply_time_decay s p =
    (if h \<le> 0 then p
     else if min 100 (hunger p + 2 * h) > 70 \<or> max 0 (min (max_energy p) (energy p + h)) < 20
          then p\<lparr>hunger := min 100 (hunger p + 2 * h),
                 energy := max 0 (min (max_energy p) (energy p + h)),
                 happiness := max 0 (happiness p - h / 2)\<rparr>
          else p\<lparr>hunger := min 100 (hunger p + 2 * h),
                 energy := max 0 (min (max_energy p) (energy p + h))\<rparr>)"
    unfolding h_def by (simp add: apply_time_decay_def Let_def config)
  show ?thesis
    using assms unfolding eq in_range_def by auto
qed

lemma refresh_in_range: "in_range p \<Longrightarrow> in_range (refresh e p)"
  using apply_time_decay_in_range [of p "now e - last_updated p"]
  by (auto simp: refresh_def maybe_random_gift_def Let_def) (auto simp: in_range_def)

lemma gain_xp_in_range: "in_range (snd (gain_xp a p)) = in_range p"
  by (simp add: in_range_def gain_xp_closed Let_def)

lemma refresh_xp: "xp (refresh e p) = xp p"
  by (simp add: refresh_def apply_time_decay_def maybe_random_gift_def Let_def)

lemma gain_xp_normal:
  assumes "xp_normal p" and "0 \<le> a"
  shows "xp_normal (snd (gain_xp a p))"
proof -
  have "0 \<le> xp p + a" using assms by (simp add: xp_normal_def)
  then have "0 \<le> (xp p + a) - 100 * ((xp p + a) div 100)"
    and "(xp p + a) - 100 * ((xp p + a) div 100) < 100"
    by presburger+
  then show ?thesis
    using assms by (auto simp: xp_normal_def gain_xp_closed Let_def levels_gained_def)
qed

lemma feed_in_range:
  "in_range p \<Longrightarrow> 0 \<le> fs \<Longrightarrow> in_range (snd (snd (feed e u fs p)))"
  using refresh_in_range [of p e]
  by (auto simp: feed_def Let_def gain_xp_in_range) (auto simp: in_range_def)

lemma play_in_range:
  "in_range p \<Longrightarrow> 0 \<le> m \<Longrightarrow> in_range (snd (snd (play e m p)))"
  using refresh_in_range [of p e]
  by (auto simp: play_def Let_def gain_xp_in_range) (auto simp: in_range_def)

lemma rest_in_range:
  "in_range p \<Longrightarrow> 0 \<le> m \<Longrightarrow> in_range (snd (snd (rest e m p)))"
  using refresh_in_range [of p e]
  by (auto simp: rest_def Let_def) (auto simp: in_range_def)

lemma do_job_in_range:
  "in_range p \<Longrightarrow> in_range (snd (snd (do_job e m p)))"
  using refresh_in_range [of p e]
  by (auto simp: do_job_def Let_def gain_xp_in_range) (auto simp: in_range_def)

lemma daily_reward_in_range:
  "in_range p \<Longrightarrow> in_range (snd (snd (daily_reward day_of t c p)))"
  by (auto simp: daily_reward_def Let_def in_range_def)

lemma buy_item_in_range:
  "in_range p \<Longrightarrow> buy_item k p = Inr r \<Longrightarrow> in_range (snd (snd r))"
proof (cases "k = ''food'' \<or> k = ''toy'' \<or> k = ''energy_drink''")
  case True
  assume "in_range p" "buy_item k p = Inr r"
  with True show ?thesis
    by (auto simp: buy_item_food buy_item_toy buy_item_energy_drink gain_xp_in_range
        split: if_splits) (auto simp: in_range_def)
next
  case False
  assume "in_range p" "buy_item k p = Inr r"
  with False show ?thesis by (auto simp: buy_item_unknown)
qed

lemma py_int_nonneg: "0 \<le> x \<Longrightarrow> 0 \<le> py_int x"
  by (simp add: py_int_def)

lemma actions_xp_normal:
  assumes "xp_normal p"
  shows "xp_normal (snd (snd (feed e u fs p)))"
    and "0 \<le> m \<Longrightarrow> xp_normal (snd (snd (play e m p)))"
    and "xp_normal (snd (snd (rest e m p)))"
    and "xp_normal (snd (snd (do_job e m p)))"
    and "xp_normal (snd (snd (daily_reward day_of t c p)))"
    and "buy_item k p = Inr r \<Longrightarrow> xp_normal (snd (snd r))"
proof -
  have r: "xp_normal (refresh e p)"
    using assms by (simp add: xp_normal_def refresh_xp)
  have g: "\<And>a q. xp q = xp (refresh e p) \<Longrightarrow> 0 \<le> a \<Longrightarrow> xp_normal (snd (gain_xp a q))"
    using r by (intro gain_xp_normal) (simp_all add: xp_normal_def)
  have g': "\<And>a q. xp q = xp p \<Longrightarrow> 0 \<le> a \<Longrightarrow> xp_normal (snd (gain_xp a q))"
    using assms by (intro gain_xp_normal) (simp_all add: xp_normal_def)
  show "xp_normal (snd (snd (feed e u fs p)))"
    using r by (auto simp: feed_def Let_def intro!: g)
  show "xp_normal (snd (snd (play e m p)))" if "0 \<le> m"
  proof -
    have "0 \<le> py_int (real_of_int m / 5)"
      using that by (intro py_int_nonneg) simp
    then have "0 \<le> 15 + py_int (real_of_int m / 5)" by simp
    then show ?thesis
      using r by (auto simp: play_def Let_def intro!: g)
  qed
  show "xp_normal (snd (snd (rest e m p)))"
    using r by (simp add: rest_def Let_def xp_normal_def)
  show "xp_normal (snd (snd (do_job e m p)))"
    using r by (auto simp: do_job_def Let_def intro!: g)
  show "xp_normal (snd (snd (daily_reward day_of t c p)))"
    using assms by (simp add: daily_reward_def Let_def xp_normal_def)
  show "buy_item k p = Inr r \<Longrightarrow> xp_normal (snd (snd r))"
  proof (cases "k = ''food'' \<or> k = ''toy'' \<or> k = ''energy_drink''")
    case True
    assume "buy_item k p = Inr r"
    with True assms show ?thesis
      by (auto simp: buy_item_food buy_item_toy buy_item_energy_drink
          split: if_splits intro!: g')
  next
    case False
    assume "buy_item k p = Inr r"
    with False assms show ?thesis by (auto simp: buy_item_unknown)
  qed
qed

end
